theory Spec2Isabelle
  imports Main
begin

section \<open>Settings\<close>

text \<open>
  The repository ships \<^verbatim>\<open>main.ts\<close> in two variants. They differ in the default
  background colour, in the names of the custom properties, in how the style
  parameters are applied and in the change handler of the background field.
  Every definition that differs takes the variant as its first argument.
\<close>

datatype variant = VariantA | VariantB

text \<open>
  \<^verbatim>\<open>interface HighlightOnCopySettings\<close>. The field \<^verbatim>\<open>duration: number\<close> holds
  milliseconds; only its integral values are modelled, which is what \<^verbatim>\<open>parseInt\<close>,
  \<^verbatim>\<open>Math.max\<close> and the default constant produce.
\<close>

record HighlightOnCopySettings =
  backgroundColor :: string
  foregroundColor :: string
  duration :: int

definition DEFAULT_SETTINGS :: "variant \<Rightarrow> HighlightOnCopySettings" where
  "DEFAULT_SETTINGS var =
     (case var of
        VariantA \<Rightarrow>
          \<lparr>backgroundColor = ''rgba(0, 255, 0, 0.5)'', foregroundColor = '''', duration = 100\<rparr>
      | VariantB \<Rightarrow>
          \<lparr>backgroundColor = '''', foregroundColor = '''', duration = 100\<rparr>)"

text \<open>
  What \<^verbatim>\<open>loadData()\<close> resolves to: \<^verbatim>\<open>null\<close> when nothing was ever saved
  (\<open>None\<close>), otherwise an object in which each of the three fields may be absent.
\<close>

record persisted_data =
  data_backgroundColor :: "string option"
  data_foregroundColor :: "string option"
  data_duration :: "int option"

definition empty_data :: persisted_data where
  "empty_data =
     \<lparr>data_backgroundColor = None, data_foregroundColor = None, data_duration = None\<rparr>"

text \<open>One own property of a source object copied over the target's, when present.\<close>

definition assign_field :: "'a \<Rightarrow> 'a option \<Rightarrow> 'a" where
  "assign_field target_value source_value =
     (case source_value of None \<Rightarrow> target_value | Some v \<Rightarrow> v)"

text \<open>
  \<^verbatim>\<open>Object.assign({}, DEFAULT_SETTINGS, data)\<close>: the fresh object first receives
  every field of the defaults, then every field present in \<^verbatim>\<open>data\<close>; a \<^verbatim>\<open>null\<close>
  source is skipped.
\<close>

definition Object_assign ::
  "HighlightOnCopySettings \<Rightarrow> persisted_data option \<Rightarrow> HighlightOnCopySettings" where
  "Object_assign defaults source =
     (case source of
        None \<Rightarrow> defaults
      | Some d \<Rightarrow>
          \<lparr>backgroundColor = assign_field (backgroundColor defaults) (data_backgroundColor d),
           foregroundColor = assign_field (foregroundColor defaults) (data_foregroundColor d),
           duration = assign_field (duration defaults) (data_duration d)\<rparr>)"

section \<open>The plugin and its host\<close>

text \<open>Positions and selections of the legacy editor (\<^verbatim>\<open>{line, ch}\<close>, \<^verbatim>\<open>{anchor, head}\<close>).\<close>

record position =
  line :: nat
  ch :: nat

record selection_range =
  anchor :: position
  head :: position

text \<open>A marker made by \<^verbatim>\<open>cm.markText(from, to, options)\<close>.\<close>

record text_marker =
  marker_id :: nat
  marker_from :: position
  marker_to :: position
  className :: string
  inclusiveLeft :: bool
  inclusiveRight :: bool
  cleared :: bool

text \<open>The two callbacks the plugin hands to \<^verbatim>\<open>window.setTimeout\<close>.\<close>

datatype callback = RevertHighlight | ClearMarker nat

record timer =
  timer_id :: nat
  due :: nat
  action :: callback

datatype observation = ClassRemoved | MarkerCleared nat

text \<open>
  The plugin instance (\<open>settings\<close>, \<open>highlightTimeout\<close>) together with the part of the
  host it acts on: the persisted data, the clock in milliseconds, the pending
  timers in the order of their registration, the class list and the inline style of
  the document root, the markers of the legacy editor, and a trace that records at
  which time a callback removed the root class or cleared a marker.
\<close>

record plugin =
  settings :: HighlightOnCopySettings
  highlightTimeout :: "nat option"
  stored :: "persisted_data option"
  clock :: nat
  next_timer :: nat
  timers :: "timer list"
  classList :: "string set"
  style :: "string \<rightharpoonup> string"
  markers :: "text_marker list"
  trace :: "(nat \<times> observation) list"

definition loadSettings :: "variant \<Rightarrow> plugin \<Rightarrow> plugin" where
  "loadSettings var s = s\<lparr>settings := Object_assign (DEFAULT_SETTINGS var) (stored s)\<rparr>"

definition saveData :: "HighlightOnCopySettings \<Rightarrow> plugin \<Rightarrow> plugin" where
  "saveData v s =
     s\<lparr>stored := Some \<lparr>data_backgroundColor = Some (backgroundColor v),
                       data_foregroundColor = Some (foregroundColor v),
                       data_duration = Some (duration v)\<rparr>\<rparr>"

definition saveSettings :: "plugin \<Rightarrow> plugin" where
  "saveSettings s = saveData (settings s) s"

section \<open>Numbers and strings of the settings panel\<close>

text \<open>
  Strings are ASCII character lists. \<^verbatim>\<open>String(n)\<close> and the template literal
  \<^verbatim>\<open>`${n}ms`\<close> render an integral number in decimal, with a minus sign when it
  is negative.
\<close>

definition digit_char :: "nat \<Rightarrow> char" where
  "digit_char k = char_of (48 + k)"

fun digits :: "nat \<Rightarrow> string" where
  "digits n = (if n < 10 then [digit_char n] else digits (n div 10) @ [digit_char (n mod 10)])"

declare digits.simps [simp del]

definition ToString :: "int \<Rightarrow> string" where
  "ToString n = (if n < 0 then CHR ''-'' # digits (nat (- n)) else digits (nat n))"

text \<open>
  \<^verbatim>\<open>parseInt(v)\<close> with no radix, after ECMA-262: leading white space is dropped, one
  sign is read, a prefix \<^verbatim>\<open>0x\<close> or \<^verbatim>\<open>0X\<close> selects radix 16 (radix 10 otherwise), and
  the longest run of digits of that radix is the number; whatever follows is
  ignored. With no digit at all the result is \<^verbatim>\<open>NaN\<close>, here \<open>None\<close>.
\<close>

definition isWhiteSpace :: "char \<Rightarrow> bool" where
  "isWhiteSpace c = ((of_char c :: nat) \<in> {9, 10, 11, 12, 13, 32})"

definition digit_value :: "char \<Rightarrow> nat option" where
  "digit_value c =
     (let k = (of_char c :: nat) in
      if 48 \<le> k \<and> k \<le> 57 then Some (k - 48)
      else if 97 \<le> k \<and> k \<le> 122 then Some (k - 87)
      else if 65 \<le> k \<and> k \<le> 90 then Some (k - 55)
      else None)"

definition is_radix_digit :: "nat \<Rightarrow> char \<Rightarrow> bool" where
  "is_radix_digit R c = (case digit_value c of None \<Rightarrow> False | Some d \<Rightarrow> d < R)"

definition radix_value :: "nat \<Rightarrow> string \<Rightarrow> nat" where
  "radix_value R Z =
     foldl (\<lambda>acc c. case digit_value c of None \<Rightarrow> acc | Some d \<Rightarrow> acc * R + d) 0 Z"

definition parseInt :: "string \<Rightarrow> int option" where
  "parseInt v =
     (let S = dropWhile isWhiteSpace v;
          sign = (if take 1 S = ''-'' then - 1 else 1 :: int);
          S1 = (if take 1 S = ''+'' \<or> take 1 S = ''-'' then drop 1 S else S);
          hex = (take 2 S1 = ''0x'' \<or> take 2 S1 = ''0X'');
          R = (if hex then 16 else 10);
          S2 = (if hex then drop 2 S1 else S1);
          Z = takeWhile (is_radix_digit R) S2
      in if Z = [] then None else Some (sign * int (radix_value R Z)))"

section \<open>The settings panel\<close>

text \<open>The three \<^verbatim>\<open>onChange\<close> callbacks of \<^verbatim>\<open>HighlightOnCopySettingTab.display\<close>.\<close>

definition backgroundOnChange :: "variant \<Rightarrow> string \<Rightarrow> plugin \<Rightarrow> plugin" where
  "backgroundOnChange var v s =
     saveSettings
       (s\<lparr>settings := (settings s)
            \<lparr>backgroundColor :=
               (case var of
                  VariantA \<Rightarrow>
                    (if v \<noteq> [] then v else backgroundColor (DEFAULT_SETTINGS VariantA))
                | VariantB \<Rightarrow> v)\<rparr>\<rparr>)"

definition foregroundOnChange :: "string \<Rightarrow> plugin \<Rightarrow> plugin" where
  "foregroundOnChange v s =
     saveSettings (s\<lparr>settings := (settings s)\<lparr>foregroundColor := v\<rparr>\<rparr>)"

definition durationOnChange :: "variant \<Rightarrow> string \<Rightarrow> plugin \<Rightarrow> plugin" where
  "durationOnChange var v s =
     saveSettings
       (s\<lparr>settings := (settings s)
            \<lparr>duration :=
               (case parseInt v of
                  None \<Rightarrow> duration (DEFAULT_SETTINGS var)
                | Some n \<Rightarrow> max 0 n)\<rparr>\<rparr>)"

section \<open>Timers of the host\<close>

text \<open>
  \<^verbatim>\<open>window.setTimeout(cb, delay)\<close> registers the callback under a fresh id, due
  \<open>delay\<close> milliseconds from now (a negative delay counts as zero), and returns the
  id. \<^verbatim>\<open>window.clearTimeout(id)\<close> drops the pending timer of that id, if any.
\<close>

definition setTimeout :: "callback \<Rightarrow> int \<Rightarrow> plugin \<Rightarrow> nat \<times> plugin" where
  "setTimeout cb delay s =
     (next_timer s,
      s\<lparr>timers := timers s @ [\<lparr>timer_id = next_timer s, due = clock s + nat delay, action = cb\<rparr>],
        next_timer := Suc (next_timer s)\<rparr>)"

definition clearTimeout :: "nat \<Rightarrow> plugin \<Rightarrow> plugin" where
  "clearTimeout i s = s\<lparr>timers := filter (\<lambda>u. timer_id u \<noteq> i) (timers s)\<rparr>"

text \<open>
  The bodies of the two callbacks: the arrow function of \<^verbatim>\<open>onCopy\<close> removes the
  root class and resets \<open>highlightTimeout\<close>; the one of \<^verbatim>\<open>handleCM5Highlight\<close>
  calls \<^verbatim>\<open>marker.clear()\<close>.
\<close>

fun run_callback :: "callback \<Rightarrow> plugin \<Rightarrow> plugin" where
  "run_callback RevertHighlight s =
     s\<lparr>classList := classList s - {''copy-highlight-active''},
       highlightTimeout := None,
       trace := trace s @ [(clock s, ClassRemoved)]\<rparr>"
| "run_callback (ClearMarker m) s =
     s\<lparr>markers := map (\<lambda>k. if marker_id k = m then k\<lparr>cleared := True\<rparr> else k) (markers s),
       trace := trace s @ [(clock s, MarkerCleared m)]\<rparr>"

text \<open>The timer that is due first; among equal due times the one registered first.\<close>

fun earliest :: "timer list \<Rightarrow> timer option" where
  "earliest [] = None"
| "earliest (u # us) =
     (case earliest us of
        None \<Rightarrow> Some u
      | Some w \<Rightarrow> if due w < due u then Some w else Some u)"

definition next_due :: "nat \<Rightarrow> plugin \<Rightarrow> timer option" where
  "next_due t s = earliest (filter (\<lambda>u. due u \<le> t) (timers s))"

definition fire :: "timer \<Rightarrow> plugin \<Rightarrow> plugin" where
  "fire u s =
     run_callback (action u)
       (s\<lparr>clock := max (clock s) (due u),
          timers := filter (\<lambda>w. timer_id w \<noteq> timer_id u) (timers s)\<rparr>)"

text \<open>
  The event loop up to time \<open>t\<close>: every timer due by then fires, at its due time
  and in the order of the due times; then the clock stands at \<open>t\<close>.
\<close>

function run_until :: "nat \<Rightarrow> plugin \<Rightarrow> plugin" where
  "run_until t s =
     (case next_due t s of
        None \<Rightarrow> s\<lparr>clock := max (clock s) t\<rparr>
      | Some u \<Rightarrow> run_until t (fire u s))"
  by pat_completeness auto
termination
proof (relation "measure (\<lambda>(t, s). length (timers s))")
  show "wf (measure (\<lambda>(t, s). length (timers s)))" by simp
next
  fix t :: nat and s :: plugin and u :: timer
  assume nd: "next_due t s = Some u"
  have mem: "earliest us = Some w \<Longrightarrow> w \<in> set us" for us and w :: timer
    by (induction us arbitrary: w) (auto split: option.splits if_splits)
  from nd have "u \<in> set (timers s)"
    using mem [of "filter (\<lambda>u. due u \<le> t) (timers s)" u] by (simp add: next_due_def)
  then have "length (filter (\<lambda>w. timer_id w \<noteq> timer_id u) (timers s)) < length (timers s)"
    by (intro length_filter_less [of u]) simp_all
  moreover have "timers (fire u s) = filter (\<lambda>w. timer_id w \<noteq> timer_id u) (timers s)"
    by (cases "action u") (simp_all add: fire_def)
  ultimately show "((t, fire u s), (t, s)) \<in> measure (\<lambda>(t, s). length (timers s))"
    by simp
qed

declare run_until.simps [simp del]

section \<open>Style parameters\<close>

text \<open>
  \<^verbatim>\<open>style.setProperty(name, value)\<close> and \<^verbatim>\<open>style.removeProperty(name)\<close> on the inline
  style of the document root. By the CSS object model, setting the empty string
  removes the property. Every other value is taken to be a valid declaration.
\<close>

definition removeProperty :: "string \<Rightarrow> plugin \<Rightarrow> plugin" where
  "removeProperty name s = s\<lparr>style := (style s)(name := None)\<rparr>"

definition setProperty :: "string \<Rightarrow> string \<Rightarrow> plugin \<Rightarrow> plugin" where
  "setProperty name v s =
     (if v = [] then removeProperty name s else s\<lparr>style := (style s)(name \<mapsto> v)\<rparr>)"

text \<open>
  Variant B has the method \<^verbatim>\<open>applyStyles\<close>; variant A makes its three
  \<^verbatim>\<open>setProperty\<close> calls at the start of \<^verbatim>\<open>onCopy\<close>, with \<^verbatim>\<open>foregroundColor || "inherit"\<close>.
\<close>

definition applyStyles :: "variant \<Rightarrow> plugin \<Rightarrow> plugin" where
  "applyStyles var s =
     (case var of
        VariantA \<Rightarrow>
          (let s1 = setProperty ''--hbg'' (backgroundColor (settings s)) s;
               s2 = setProperty ''--hfg''
                      (if foregroundColor (settings s1) \<noteq> [] then foregroundColor (settings s1)
                       else ''inherit'') s1
           in setProperty ''--hdur'' (ToString (duration (settings s2)) @ ''ms'') s2)
      | VariantB \<Rightarrow>
          (let s1 = (if backgroundColor (settings s) \<noteq> []
                     then setProperty ''--highlight-on-copy-bg'' (backgroundColor (settings s)) s
                     else removeProperty ''--highlight-on-copy-bg'' s);
               s2 = (if foregroundColor (settings s1) \<noteq> []
                     then setProperty ''--highlight-on-copy-fg'' (foregroundColor (settings s1)) s1
                     else removeProperty ''--highlight-on-copy-fg'' s1)
           in setProperty ''--highlight-on-copy-duration''
                (ToString (duration (settings s2)) @ ''ms'') s2))"

section \<open>The copy handler\<close>

text \<open>
  The active view as \<^verbatim>\<open>getActiveViewOfType(MarkdownView)\<close> returns it (\<open>None\<close> for
  \<^verbatim>\<open>null\<close>). Of the editor only what the plugin probes is kept: whether it has a
  \<^verbatim>\<open>state\<close> key, its \<^verbatim>\<open>cm\<close> handle if any, whether that handle has \<^verbatim>\<open>markText\<close>,
  and what \<^verbatim>\<open>listSelections()\<close> returns.
\<close>

record CodeMirror_Editor =
  has_markText :: bool
  listSelections :: "selection_range list option"

record Editor =
  has_state :: bool
  cm :: "CodeMirror_Editor option"

datatype view_mode = Source | Preview

record MarkdownView =
  getMode :: view_mode
  editor :: Editor

definition isCM6 :: "Editor \<Rightarrow> bool" where
  "isCM6 e = (has_state e \<and> cm e = None)"

text \<open>
  \<^verbatim>\<open>cm.markText(from, to, {className, inclusiveLeft, inclusiveRight})\<close>: the call is
  recorded as a marker with a fresh id, which stands for the returned handle.
\<close>

definition markText ::
  "position \<Rightarrow> position \<Rightarrow> string \<Rightarrow> bool \<Rightarrow> bool \<Rightarrow> plugin \<Rightarrow> nat \<times> plugin" where
  "markText from to cls il ir s =
     (length (markers s),
      s\<lparr>markers := markers s @
           [\<lparr>marker_id = length (markers s), marker_from = from, marker_to = to,
             className = cls, inclusiveLeft = il, inclusiveRight = ir, cleared = False\<rparr>]\<rparr>)"

text \<open>The swap of \<^verbatim>\<open>from\<close> and \<^verbatim>\<open>to\<close> in \<^verbatim>\<open>handleCM5Highlight\<close>.\<close>

definition ordered_range :: "position \<Rightarrow> position \<Rightarrow> position \<times> position" where
  "ordered_range a h =
     (if line h < line a \<or> (line h = line a \<and> ch h < ch a) then (h, a) else (a, h))"

definition handleCM5Highlight :: "Editor \<Rightarrow> plugin \<Rightarrow> plugin" where
  "handleCM5Highlight e s =
     (case cm e of
        None \<Rightarrow> s
      | Some c \<Rightarrow>
          if \<not> has_markText c then s
          else
            (case listSelections c of
               None \<Rightarrow> s
             | Some [] \<Rightarrow> s
             | Some (sel # _) \<Rightarrow>
                 (let (from, to) = ordered_range (anchor sel) (head sel);
                      (marker, s1) = markText from to ''highlight-on-copy'' True True s
                  in snd (setTimeout (ClearMarker marker) (duration (settings s1)) s1))))"

definition onCopy :: "variant \<Rightarrow> MarkdownView option \<Rightarrow> plugin \<Rightarrow> plugin" where
  "onCopy var view s =
     (case view of
        None \<Rightarrow> s
      | Some v \<Rightarrow>
          (let s1 = applyStyles var s;
               s2 = (case highlightTimeout s1 of None \<Rightarrow> s1 | Some i \<Rightarrow> clearTimeout i s1);
               s3 = s2\<lparr>classList := insert ''copy-highlight-active'' (classList s2)\<rparr>;
               (i, s4) = setTimeout RevertHighlight (duration (settings s3)) s3;
               s5 = s4\<lparr>highlightTimeout := Some i\<rparr>
           in if getMode v = Source \<and> \<not> isCM6 (editor v)
              then handleCM5Highlight (editor v) s5 else s5))"

text \<open>
  The plugin right after \<^verbatim>\<open>onload\<close> on a host whose persisted data is \<open>d\<close>: no
  timer pending, the clock at zero. The \<open>settings\<close> field is unassigned until
  \<^verbatim>\<open>loadSettings\<close> writes it; the value it starts from here is never read.
\<close>

definition startup :: "variant \<Rightarrow> persisted_data option \<Rightarrow> plugin" where
  "startup var d =
     loadSettings var
       \<lparr>settings = DEFAULT_SETTINGS var, highlightTimeout = None, stored = d, clock = 0,
        next_timer = 1, timers = [], classList = {}, style = Map.empty, markers = [],
        trace = []\<rparr>"

section \<open>Notions used in the statements\<close>

text \<open>The timer \<^verbatim>\<open>onCopy\<close> registers in state \<open>s\<close>.\<close>

definition revert_timer :: "plugin \<Rightarrow> timer" where
  "revert_timer s =
     \<lparr>timer_id = next_timer s, due = clock s + nat (duration (settings s)),
      action = RevertHighlight\<rparr>"

text \<open>The timer \<^verbatim>\<open>handleCM5Highlight\<close> registers in state \<open>s\<close>.\<close>

definition legacy_timer :: "plugin \<Rightarrow> timer" where
  "legacy_timer s =
     \<lparr>timer_id = next_timer s, due = clock s + nat (duration (settings s)),
      action = ClearMarker (length (markers s))\<rparr>"

text \<open>The state \<^verbatim>\<open>onCopy\<close> has reached when it turns to the legacy editor, written as
  one update of the state it started from.\<close>

definition restart :: "variant \<Rightarrow> plugin \<Rightarrow> plugin" where
  "restart var s =
     (applyStyles var s)
       \<lparr>classList := insert ''copy-highlight-active'' (classList s),
        timers := filter (\<lambda>u. Some (timer_id u) \<noteq> highlightTimeout s) (timers s) @ [revert_timer s],
        next_timer := Suc (next_timer s),
        highlightTimeout := Some (next_timer s)\<rparr>"


text \<open>The times at which a callback removed the root class.\<close>

definition removals :: "plugin \<Rightarrow> nat list" where
  "removals s = map fst (filter (\<lambda>e. snd e = ClassRemoved) (trace s))"


text \<open>What every state of a run has in common: pending timers carry distinct ids
  below the next fresh one, none is due in the past, and \<open>highlightTimeout\<close> holds
  an id that was handed out, which is the id of exactly the revert timers.\<close>

definition timers_ok :: "plugin \<Rightarrow> bool" where
  "timers_ok s =
     (distinct (map timer_id (timers s)) \<and>
      (\<forall>i. highlightTimeout s = Some i \<longrightarrow> i < next_timer s) \<and>
      (\<forall>u \<in> set (timers s).
         timer_id u < next_timer s \<and> clock s \<le> due u \<and>
         (action u = RevertHighlight \<longleftrightarrow> highlightTimeout s = Some (timer_id u))))"

text \<open>A run of the host: copy events at the given times, each with the view that is
  active then; between them the event loop fires what falls due.\<close>

fun copy_events :: "variant \<Rightarrow> (nat \<times> MarkdownView option) list \<Rightarrow> plugin \<Rightarrow> plugin" where
  "copy_events var [] s = s"
| "copy_events var ((t, view) # es) s = copy_events var es (onCopy var view (run_until t s))"


text \<open>
  Document order of positions: by line, then by column.
\<close>

definition precedes :: "position \<Rightarrow> position \<Rightarrow> bool" where
  "precedes a b = (line a < line b \<or> (line a = line b \<and> ch a < ch b))"

text \<open>
  The marker \<^verbatim>\<open>handleCM5Highlight\<close> asks for: class \<^verbatim>\<open>highlight-on-copy\<close>, inclusive on
  both sides, not yet cleared.
\<close>

definition highlight_marker :: "nat \<Rightarrow> position \<Rightarrow> position \<Rightarrow> text_marker" where
  "highlight_marker i from to =
     \<lparr>marker_id = i, marker_from = from, marker_to = to, className = ''highlight-on-copy'',
      inclusiveLeft = True, inclusiveRight = True, cleared = False\<rparr>"

text \<open>
  An editor of the legacy engine: no \<^verbatim>\<open>state\<close> key, a \<^verbatim>\<open>cm\<close> handle with \<^verbatim>\<open>markText\<close>,
  and the given selections.
\<close>

definition legacy_editor :: "selection_range list \<Rightarrow> Editor" where
  "legacy_editor sels =
     \<lparr>has_state = False, cm = Some \<lparr>has_markText = True, listSelections = Some sels\<rparr>\<rparr>"

section \<open>Loading the settings\<close>

text \<open>
  C4. \<^verbatim>\<open>loadSettings\<close> is a shallow merge in which the persisted value wins field by
  field: whatever subset of the three fields the persisted object carries, each
  field of the loaded settings is the persisted value when there is one and the
  hardcoded default otherwise; with no persisted data at all, or with an object
  without fields, the loaded settings are the defaults.
\<close>

theorem loadSettings_shallow_merge:
  "backgroundColor (settings (loadSettings var (s\<lparr>stored := Some d\<rparr>))) =
     (case data_backgroundColor d of
        None \<Rightarrow> backgroundColor (DEFAULT_SETTINGS var) | Some v \<Rightarrow> v)
   \<and> foregroundColor (settings (loadSettings var (s\<lparr>stored := Some d\<rparr>))) =
     (case data_foregroundColor d of
        None \<Rightarrow> foregroundColor (DEFAULT_SETTINGS var) | Some v \<Rightarrow> v)
   \<and> duration (settings (loadSettings var (s\<lparr>stored := Some d\<rparr>))) =
     (case data_duration d of
        None \<Rightarrow> duration (DEFAULT_SETTINGS var) | Some v \<Rightarrow> v)
   \<and> settings (loadSettings var (s\<lparr>stored := None\<rparr>)) = DEFAULT_SETTINGS var
   \<and> settings (loadSettings var (s\<lparr>stored := Some empty_data\<rparr>)) = DEFAULT_SETTINGS var"
  by (simp add: loadSettings_def Object_assign_def assign_field_def empty_data_def
        split: option.splits)

section \<open>Decimal numerals and \<^verbatim>\<open>parseInt\<close>\<close>

lemma digits_ne: "digits n \<noteq> []"
  by (cases "n < 10") (simp_all add: digits.simps [of n])

lemma digit_value_digit_char: "k < 10 \<Longrightarrow> digit_value (digit_char k) = Some k"
  by (simp add: digit_value_def digit_char_def Let_def)

lemma of_char_digit_char: "k < 10 \<Longrightarrow> (of_char (digit_char k) :: nat) = 48 + k"
  by (simp add: digit_char_def)

lemma digits_set: "c \<in> set (digits n) \<Longrightarrow> \<exists>k<10. c = digit_char k"
proof (induction n rule: digits.induct)
  case (1 n)
  show ?case
  proof (cases "n < 10")
    case True
    with "1.prems" show ?thesis by (auto simp: digits.simps [of n])
  next
    case False
    with "1.prems" have "c \<in> set (digits (n div 10)) \<or> c = digit_char (n mod 10)"
      by (auto simp: digits.simps [of n])
    then show ?thesis
    proof
      assume "c \<in> set (digits (n div 10))"
      with 1 False show ?thesis by simp
    next
      assume "c = digit_char (n mod 10)"
      moreover have "n mod 10 < 10" by simp
      ultimately show ?thesis by blast
    qed
  qed
qed

lemma radix_value_snoc:
  "radix_value R (Z @ [c]) =
     (case digit_value c of None \<Rightarrow> radix_value R Z | Some d \<Rightarrow> radix_value R Z * R + d)"
  by (simp add: radix_value_def split: option.splits)

lemma radix_value_digits: "radix_value 10 (digits n) = n"
proof (induction n rule: digits.induct)
  case (1 n)
  show ?case
  proof (cases "n < 10")
    case True
    then show ?thesis
      by (simp add: digits.simps [of n] radix_value_def digit_value_digit_char)
  next
    case False
    with 1 have "radix_value 10 (digits (n div 10)) = n div 10" by simp
    with False show ?thesis
      by (simp add: digits.simps [of n] radix_value_snoc digit_value_digit_char)
  qed
qed

lemma digits_of_char:
  "c \<in> set (digits n) \<Longrightarrow> 48 \<le> (of_char c :: nat) \<and> (of_char c :: nat) \<le> 57"
  using digits_set [of c n] by (auto simp: of_char_digit_char)

lemma digits_radix_digit: "c \<in> set (digits n) \<Longrightarrow> is_radix_digit 10 c"
  using digits_set [of c n] by (auto simp: is_radix_digit_def digit_value_digit_char)

lemma takeWhile_digits: "takeWhile (is_radix_digit 10) (digits n) = digits n"
  by (simp add: takeWhile_eq_all_conv digits_radix_digit)

lemma digits_not_hex: "take 2 (digits n) \<noteq> ''0x'' \<and> take 2 (digits n) \<noteq> ''0X''"
proof -
  have "CHR ''x'' \<notin> set (digits n)" "CHR ''X'' \<notin> set (digits n)"
    using digits_of_char [of "CHR ''x''" n] digits_of_char [of "CHR ''X''" n] by auto
  moreover have "set (take 2 (digits n)) \<subseteq> set (digits n)" by (rule set_take_subset)
  ultimately show ?thesis by auto
qed

lemma digits_no_sign: "take 1 (digits n) \<noteq> ''-'' \<and> take 1 (digits n) \<noteq> ''+''"
proof -
  have "CHR ''-'' \<notin> set (digits n)" "CHR ''+'' \<notin> set (digits n)"
    using digits_of_char [of "CHR ''-''" n] digits_of_char [of "CHR ''+''" n] by auto
  moreover have "set (take 1 (digits n)) \<subseteq> set (digits n)" by (rule set_take_subset)
  ultimately show ?thesis by auto
qed

lemma dropWhile_digits: "dropWhile isWhiteSpace (digits n) = digits n"
proof (cases "digits n")
  case Nil
  then show ?thesis by simp
next
  case (Cons c r)
  then have "c \<in> set (digits n)" by simp
  then have "\<not> isWhiteSpace c"
    using digits_of_char [of c n] by (auto simp: isWhiteSpace_def)
  with Cons show ?thesis by simp
qed

text \<open>
  Parsing the decimal rendering of an integer gives the integer back.
\<close>

lemma parseInt_ToString: "parseInt (ToString n) = Some n"
proof (cases "n < 0")
  case False
  then show ?thesis
    using digits_no_sign [of "nat n"] digits_not_hex [of "nat n"] digits_ne [of "nat n"]
    by (simp add: parseInt_def ToString_def Let_def dropWhile_digits takeWhile_digits
          radix_value_digits)
next
  case True
  have "\<not> isWhiteSpace CHR ''-''" by (simp add: isWhiteSpace_def)
  with True show ?thesis
    using digits_not_hex [of "nat (- n)"] digits_ne [of "nat (- n)"]
    by (simp add: parseInt_def ToString_def Let_def takeWhile_digits radix_value_digits)
qed


lemma parseInt_abc: "parseInt ''abc'' = None"
  by (simp add: parseInt_def Let_def isWhiteSpace_def is_radix_digit_def digit_value_def)


lemma parseInt_minus7: "parseInt ''-7'' = Some (- 7)"
  by (simp add: parseInt_def Let_def isWhiteSpace_def is_radix_digit_def digit_value_def
        radix_value_def)


section \<open>The event loop\<close>

lemma earliest_mem: "earliest us = Some w \<Longrightarrow> w \<in> set us"
  by (induction us arbitrary: w) (auto split: option.splits if_splits)

lemma earliest_None: "earliest us = None \<longleftrightarrow> us = []"
  by (cases us) (auto split: option.splits)

lemma earliest_le: "earliest us = Some w \<Longrightarrow> x \<in> set us \<Longrightarrow> due w \<le> due x"
proof (induction us arbitrary: w)
  case Nil
  then show ?case by simp
next
  case (Cons u us)
  show ?case
  proof (cases "earliest us")
    case None
    then have "us = []" by (simp add: earliest_None)
    with Cons.prems show ?thesis by simp
  next
    case (Some w')
    from Cons.prems Some Cons.IH [of w'] show ?thesis
      by (auto split: if_splits)
  qed
qed

lemma next_due_Some:
  assumes "next_due t s = Some u"
  shows "u \<in> set (timers s)" and "due u \<le> t"
    and "\<And>w. w \<in> set (timers s) \<Longrightarrow> due w \<le> t \<Longrightarrow> due u \<le> due w"
proof -
  from assms have e: "earliest (filter (\<lambda>u. due u \<le> t) (timers s)) = Some u"
    by (simp add: next_due_def)
  from earliest_mem [OF e] show "u \<in> set (timers s)" and "due u \<le> t" by simp_all
  fix w assume "w \<in> set (timers s)" "due w \<le> t"
  then show "due u \<le> due w" using earliest_le [OF e, of w] by simp
qed

lemma next_due_None: "next_due t s = None \<longleftrightarrow> (\<forall>w \<in> set (timers s). t < due w)"
  by (auto simp: next_due_def earliest_None filter_empty_conv not_le)

lemma fire_fields:
  "timers (fire u s) = filter (\<lambda>w. timer_id w \<noteq> timer_id u) (timers s)"
  "clock (fire u s) = max (clock s) (due u)"
  "next_timer (fire u s) = next_timer s"
  "settings (fire u s) = settings s"
  "highlightTimeout (fire u s) =
     (if action u = RevertHighlight then None else highlightTimeout s)"
  "classList (fire u s) =
     (if action u = RevertHighlight then classList s - {''copy-highlight-active''}
      else classList s)"
  "trace (fire u s) =
     trace s @ [(max (clock s) (due u),
                 case action u of RevertHighlight \<Rightarrow> ClassRemoved | ClearMarker m \<Rightarrow> MarkerCleared m)]"
  by (cases "action u"; simp add: fire_def)+

lemma fire_ok:
  assumes ok: "timers_ok s" and nd: "next_due t s = Some u"
  shows "timers_ok (fire u s)"
proof -
  note u = next_due_Some [OF nd]
  from ok have d: "distinct (map timer_id (timers s))" by (simp add: timers_ok_def)
  have cl: "clock s \<le> due u" using ok u(1) by (simp add: timers_ok_def)
  have 1: "distinct (map timer_id (timers (fire u s)))"
    using d by (simp add: fire_fields distinct_map_filter)
  have 2: "timer_id w < next_timer (fire u s) \<and> clock (fire u s) \<le> due w \<and>
      (action w = RevertHighlight \<longleftrightarrow> highlightTimeout (fire u s) = Some (timer_id w))"
    if w: "w \<in> set (timers (fire u s))" for w
  proof -
    from w have ws: "w \<in> set (timers s)" and ne: "timer_id w \<noteq> timer_id u"
      by (simp_all add: fire_fields)
    from ok ws have a: "timer_id w < next_timer s" "clock s \<le> due w"
      "action w = RevertHighlight \<longleftrightarrow> highlightTimeout s = Some (timer_id w)"
      by (simp_all add: timers_ok_def)
    from ok u(1) have b: "action u = RevertHighlight \<longleftrightarrow> highlightTimeout s = Some (timer_id u)"
      by (simp add: timers_ok_def)
    have "due u \<le> due w"
    proof (cases "due w \<le> t")
      case True
      then show ?thesis using u(3) [OF ws] by simp
    next
      case False
      with u(2) show ?thesis by simp
    qed
    with a b ne cl show ?thesis by (auto simp: fire_fields)
  qed
  have 3: "\<forall>i. highlightTimeout (fire u s) = Some i \<longrightarrow> i < next_timer (fire u s)"
    using ok by (auto simp: timers_ok_def fire_fields split: option.splits)
  from 1 2 3 show ?thesis unfolding timers_ok_def by blast
qed

lemma run_until_ok: "timers_ok s \<Longrightarrow> timers_ok (run_until t s)"
proof (induction t s rule: run_until.induct)
  case (1 t s)
  show ?case
  proof (cases "next_due t s")
    case None
    then have "\<forall>w \<in> set (timers s). t < due w" by (simp add: next_due_None)
    with "1.prems" None show ?thesis
      by (auto simp: run_until.simps [of t s] timers_ok_def)
  next
    case (Some u)
    with 1 fire_ok [OF "1.prems" Some] show ?thesis
      by (simp add: run_until.simps [of t s])
  qed
qed

lemma run_until_settings: "settings (run_until t s) = settings s"
proof (induction t s rule: run_until.induct)
  case (1 t s)
  then show ?case
    by (cases "next_due t s") (simp_all add: run_until.simps [of t s] fire_fields)
qed






section \<open>What a copy event does to the timers\<close>

lemma applyStyles_style_only: "applyStyles var s = s\<lparr>style := style (applyStyles var s)\<rparr>"
  by (cases var) (simp_all add: applyStyles_def setProperty_def removeProperty_def Let_def)

lemma applyStyles_fields:
  "settings (applyStyles var s) = settings s"
  "timers (applyStyles var s) = timers s"
  "highlightTimeout (applyStyles var s) = highlightTimeout s"
  "clock (applyStyles var s) = clock s"
  "next_timer (applyStyles var s) = next_timer s"
  "classList (applyStyles var s) = classList s"
  "markers (applyStyles var s) = markers s"
  "trace (applyStyles var s) = trace s"
  "stored (applyStyles var s) = stored s"
  by (subst applyStyles_style_only, simp)+

lemma handleCM5Highlight_shape:
  "handleCM5Highlight e s = s \<or>
   (\<exists>k. handleCM5Highlight e s =
      s\<lparr>markers := markers s @ [k], timers := timers s @ [legacy_timer s],
        next_timer := Suc (next_timer s)\<rparr>)"
  by (auto simp: handleCM5Highlight_def markText_def setTimeout_def legacy_timer_def Let_def
        split: option.splits list.splits prod.splits)

lemma onCopy_Some:
  "onCopy var (Some v) s =
     (if getMode v = Source \<and> \<not> isCM6 (editor v)
      then handleCM5Highlight (editor v) (restart var s) else restart var s)"
proof -
  have "(case highlightTimeout s of None \<Rightarrow> timers s
         | Some i \<Rightarrow> filter (\<lambda>u. timer_id u \<noteq> i) (timers s)) =
        filter (\<lambda>u. Some (timer_id u) \<noteq> highlightTimeout s) (timers s)"
    by (cases "highlightTimeout s") auto
  then show ?thesis
    by (cases "highlightTimeout s")
       (simp_all add: onCopy_def restart_def revert_timer_def Let_def setTimeout_def applyStyles_fields clearTimeout_def)
qed

lemma restart_fields:
  "timers (restart var s) =
     filter (\<lambda>u. Some (timer_id u) \<noteq> highlightTimeout s) (timers s) @ [revert_timer s]"
  "next_timer (restart var s) = Suc (next_timer s)"
  "highlightTimeout (restart var s) = Some (next_timer s)"
  "classList (restart var s) = insert ''copy-highlight-active'' (classList s)"
  "clock (restart var s) = clock s"
  "settings (restart var s) = settings s"
  "trace (restart var s) = trace s"
  "markers (restart var s) = markers s"
  "stored (restart var s) = stored s"
  by (simp_all add: restart_def applyStyles_fields)

lemma restart_ok:
  assumes "timers_ok s"
  shows "timers_ok (restart var s)"
proof -
  let ?old = "filter (\<lambda>u. Some (timer_id u) \<noteq> highlightTimeout s) (timers s)"
  from assms have d: "distinct (map timer_id (timers s))"
    and old: "\<And>u. u \<in> set (timers s) \<Longrightarrow> timer_id u < next_timer s \<and> clock s \<le> due u \<and>
         (action u = RevertHighlight \<longleftrightarrow> highlightTimeout s = Some (timer_id u))"
    by (simp_all add: timers_ok_def)
  have "next_timer s \<notin> timer_id ` set ?old"
    using old by fastforce
  with d have 1: "distinct (map timer_id (timers (restart var s)))"
    by (simp add: restart_fields distinct_map_filter revert_timer_def)
  have 2: "timer_id u < next_timer (restart var s) \<and> clock (restart var s) \<le> due u \<and>
      (action u = RevertHighlight \<longleftrightarrow> highlightTimeout (restart var s) = Some (timer_id u))"
    if "u \<in> set (timers (restart var s))" for u
  proof -
    from that consider "u \<in> set (timers s)" "Some (timer_id u) \<noteq> highlightTimeout s"
      | "u = revert_timer s"
      by (auto simp: restart_fields)
    then show ?thesis
    proof cases
      case 1
      with old [of u] show ?thesis by (auto simp: restart_fields)
    next
      case 2
      then show ?thesis by (simp add: restart_fields revert_timer_def)
    qed
  qed
  have 3: "\<forall>i. highlightTimeout (restart var s) = Some i \<longrightarrow> i < next_timer (restart var s)"
    by (simp add: restart_fields)
  from 1 2 3 show ?thesis unfolding timers_ok_def by blast
qed


lemma handleCM5Highlight_ok:
  assumes "timers_ok s"
  shows "timers_ok (handleCM5Highlight e s)"
proof -
  from assms have d: "distinct (map timer_id (timers s))"
    and old: "\<And>u. u \<in> set (timers s) \<Longrightarrow> timer_id u < next_timer s \<and> clock s \<le> due u \<and>
         (action u = RevertHighlight \<longleftrightarrow> highlightTimeout s = Some (timer_id u))"
    by (simp_all add: timers_ok_def)
  from handleCM5Highlight_shape [of e s] show ?thesis
  proof
    assume "handleCM5Highlight e s = s"
    with assms show ?thesis by simp
  next
    assume "\<exists>k. handleCM5Highlight e s =
      s\<lparr>markers := markers s @ [k], timers := timers s @ [legacy_timer s],
        next_timer := Suc (next_timer s)\<rparr>"
    then obtain k where eq: "handleCM5Highlight e s =
      s\<lparr>markers := markers s @ [k], timers := timers s @ [legacy_timer s],
        next_timer := Suc (next_timer s)\<rparr>" ..
    have "next_timer s \<notin> timer_id ` set (timers s)"
      using old by fastforce
    with d have 1: "distinct (map timer_id (timers (handleCM5Highlight e s)))"
      by (simp add: eq legacy_timer_def)
    have 2: "timer_id u < next_timer (handleCM5Highlight e s)
        \<and> clock (handleCM5Highlight e s) \<le> due u
        \<and> (action u = RevertHighlight \<longleftrightarrow>
             highlightTimeout (handleCM5Highlight e s) = Some (timer_id u))"
      if "u \<in> set (timers (handleCM5Highlight e s))" for u
    proof -
      from that consider "u \<in> set (timers s)" | "u = legacy_timer s"
        by (auto simp: eq)
      then show ?thesis
      proof cases
        case 1
        with old [of u] show ?thesis by (auto simp: eq)
      next
        case 2
        have "highlightTimeout s \<noteq> Some (next_timer s)"
          using assms by (auto simp: timers_ok_def)
        with 2 show ?thesis by (simp add: eq legacy_timer_def)
      qed
    qed
    have 3: "\<forall>i. highlightTimeout (handleCM5Highlight e s) = Some i \<longrightarrow>
                 i < next_timer (handleCM5Highlight e s)"
      using assms by (auto simp: timers_ok_def eq split: option.splits)
    from 1 2 3 show ?thesis unfolding timers_ok_def by blast
  qed
qed


lemma handleCM5Highlight_fields:
  "settings (handleCM5Highlight e s) = settings s"
  "highlightTimeout (handleCM5Highlight e s) = highlightTimeout s"
  "clock (handleCM5Highlight e s) = clock s"
  "classList (handleCM5Highlight e s) = classList s"
  "trace (handleCM5Highlight e s) = trace s"
  "style (handleCM5Highlight e s) = style s"
  "stored (handleCM5Highlight e s) = stored s"
  using handleCM5Highlight_shape [of e s] by auto

lemma onCopy_ok: "timers_ok s \<Longrightarrow> timers_ok (onCopy var view s)"
  by (cases view) (simp_all add: onCopy_def [of var None] onCopy_Some handleCM5Highlight_ok restart_ok)

lemma onCopy_fields:
  "settings (onCopy var view s) = settings s"
  "clock (onCopy var view s) = clock s"
  "trace (onCopy var view s) = trace s"
  "stored (onCopy var view s) = stored s"
  by (cases view; simp add: onCopy_def [of var None] onCopy_Some handleCM5Highlight_fields
        restart_def applyStyles_fields)+





lemma startup_fields:
  "clock (startup var d) = 0" "removals (startup var d) = []"
  "settings (startup var d) = Object_assign (DEFAULT_SETTINGS var) d"
  by (simp_all add: startup_def loadSettings_def removals_def)

text \<open>Loading and the edits of the settings panel touch no timer.\<close>

lemma settings_edits_ok:
  assumes "timers_ok s"
  shows "timers_ok (loadSettings var s)" and "timers_ok (backgroundOnChange var v s)"
    and "timers_ok (foregroundOnChange v s)" and "timers_ok (durationOnChange var v s)"
  using assms
  by (simp_all add: timers_ok_def loadSettings_def backgroundOnChange_def
        foregroundOnChange_def durationOnChange_def saveSettings_def saveData_def)

section \<open>Debounce of the revert timer\<close>



section \<open>The legacy range highlighter\<close>




lemma copy_events_ok: "timers_ok s \<Longrightarrow> timers_ok (copy_events var es s)"
  by (induction var es s rule: copy_events.induct) (simp_all add: run_until_ok onCopy_ok)



lemma handleCM5Highlight_marks:
  assumes "cm e = Some c" and "has_markText c" and "listSelections c = Some (sel # sels)"
  shows "handleCM5Highlight e s =
     s\<lparr>markers := markers s @
          [highlight_marker (length (markers s))
             (fst (ordered_range (anchor sel) (head sel)))
             (snd (ordered_range (anchor sel) (head sel)))],
       timers := timers s @ [legacy_timer s],
       next_timer := Suc (next_timer s)\<rparr>"
  using assms
  by (simp add: handleCM5Highlight_def markText_def setTimeout_def legacy_timer_def
        highlight_marker_def Let_def split: prod.splits)




text \<open>
  C3. For positions \<open>A\<close> before \<open>B\<close> in document order, the selection with
  anchor \<open>A\<close> and head \<open>B\<close> and the selection with anchor \<open>B\<close> and head
  \<open>A\<close> are both put in the order \<open>(A, B)\<close>, and \<^verbatim>\<open>handleCM5Highlight\<close> marks the
  same range from \<open>A\<close> to \<open>B\<close> for either.
\<close>

theorem legacy_range_symmetric:
  assumes "precedes A B"
    and "cm e1 = Some c1" and "has_markText c1"
    and "listSelections c1 = Some (\<lparr>anchor = A, head = B\<rparr> # r1)"
    and "cm e2 = Some c2" and "has_markText c2"
    and "listSelections c2 = Some (\<lparr>anchor = B, head = A\<rparr> # r2)"
  shows "ordered_range A B = (A, B) \<and> ordered_range B A = (A, B)
       \<and> markers (handleCM5Highlight e1 s) =
           markers s @ [highlight_marker (length (markers s)) A B]
       \<and> markers (handleCM5Highlight e2 s) = markers (handleCM5Highlight e1 s)"
proof -
  from assms(1) have o: "ordered_range A B = (A, B)" "ordered_range B A = (A, B)"
    by (auto simp: precedes_def ordered_range_def)
  with handleCM5Highlight_marks [OF assms(2-4), of s] handleCM5Highlight_marks [OF assms(5-7), of s]
  show ?thesis by simp
qed

theorem legacy_range_symmetric_witness:
  "precedes \<lparr>line = 1, ch = 3\<rparr> \<lparr>line = 2, ch = 5\<rparr>
   \<and> markers (handleCM5Highlight
        (legacy_editor [\<lparr>anchor = \<lparr>line = 2, ch = 5\<rparr>, head = \<lparr>line = 1, ch = 3\<rparr>\<rparr>])
        (startup VariantA None)) =
       [highlight_marker 0 \<lparr>line = 1, ch = 3\<rparr> \<lparr>line = 2, ch = 5\<rparr>]
   \<and> markers (handleCM5Highlight
        (legacy_editor [\<lparr>anchor = \<lparr>line = 1, ch = 3\<rparr>, head = \<lparr>line = 2, ch = 5\<rparr>\<rparr>])
        (startup VariantA None)) =
       [highlight_marker 0 \<lparr>line = 1, ch = 3\<rparr> \<lparr>line = 2, ch = 5\<rparr>]"
proof -
  have p: "precedes \<lparr>line = 1, ch = 3\<rparr> \<lparr>line = 2, ch = 5\<rparr>" by (simp add: precedes_def)
  have f: "markers (startup VariantA None) = []" by (simp add: startup_def loadSettings_def)
  from legacy_range_symmetric [OF p,
      of "legacy_editor [\<lparr>anchor = \<lparr>line = 1, ch = 3\<rparr>, head = \<lparr>line = 2, ch = 5\<rparr>\<rparr>]"
         "\<lparr>has_markText = True,
           listSelections = Some [\<lparr>anchor = \<lparr>line = 1, ch = 3\<rparr>, head = \<lparr>line = 2, ch = 5\<rparr>\<rparr>]\<rparr>"
         "[]"
         "legacy_editor [\<lparr>anchor = \<lparr>line = 2, ch = 5\<rparr>, head = \<lparr>line = 1, ch = 3\<rparr>\<rparr>]"
         "\<lparr>has_markText = True,
           listSelections = Some [\<lparr>anchor = \<lparr>line = 2, ch = 5\<rparr>, head = \<lparr>line = 1, ch = 3\<rparr>\<rparr>]\<rparr>"
         "[]" "startup VariantA None"]
  show ?thesis by (simp add: precedes_def f legacy_editor_def)
qed



section \<open>Edits in the settings panel\<close>

lemma onChange_fields:
  "settings (backgroundOnChange var v s) =
     (settings s)\<lparr>backgroundColor :=
        (case var of VariantA \<Rightarrow> (if v \<noteq> [] then v else backgroundColor (DEFAULT_SETTINGS VariantA))
         | VariantB \<Rightarrow> v)\<rparr>"
  "settings (foregroundOnChange v s) = (settings s)\<lparr>foregroundColor := v\<rparr>"
  "settings (durationOnChange var v s) =
     (settings s)\<lparr>duration :=
        (case parseInt v of None \<Rightarrow> duration (DEFAULT_SETTINGS var) | Some n \<Rightarrow> max 0 n)\<rparr>"
  by (simp_all add: backgroundOnChange_def foregroundOnChange_def durationOnChange_def
        saveSettings_def saveData_def)

lemma default_duration: "duration (DEFAULT_SETTINGS var) = 100"
  by (cases var) (simp_all add: DEFAULT_SETTINGS_def)





text \<open>
  C7, as the code has it. The handler never looks at the prior duration: two
  states that differ in it end with the same duration for the same text. A text
  that does not parse stores the default 100, and a text that parses to a negative
  integer stores 0, whatever was stored before.
\<close>

theorem durationOnChange_ignores_prior:
  "duration (settings (durationOnChange var v s)) = duration (settings (durationOnChange var v s'))
   \<and> (parseInt v = None \<longrightarrow> duration (settings (durationOnChange var v s)) = 100)
   \<and> (\<forall>n. parseInt v = Some n \<and> n < 0 \<longrightarrow> duration (settings (durationOnChange var v s)) = 0)
   \<and> (d < 0 \<longrightarrow> duration (settings (durationOnChange var (ToString d) s)) = 0)"
  by (simp add: onChange_fields default_duration parseInt_ToString)

theorem durationOnChange_ignores_prior_witness:
  "parseInt ''abc'' = None
   \<and> duration (settings (durationOnChange VariantB ''abc'' (startup VariantB (Some
        \<lparr>data_backgroundColor = None, data_foregroundColor = None, data_duration = Some 250\<rparr>)))) = 100
   \<and> parseInt ''-7'' = Some (- 7) \<and> (- 7 :: int) < 0
   \<and> duration (settings (durationOnChange VariantB ''-7'' (startup VariantB (Some
        \<lparr>data_backgroundColor = None, data_foregroundColor = None, data_duration = Some 250\<rparr>)))) = 0"
  using
    durationOnChange_ignores_prior [of VariantB "''abc''" "startup VariantB (Some
        \<lparr>data_backgroundColor = None, data_foregroundColor = None, data_duration = Some 250\<rparr>)"
        "startup VariantB None" "- 7"]
    durationOnChange_ignores_prior [of VariantB "''-7''" "startup VariantB (Some
        \<lparr>data_backgroundColor = None, data_foregroundColor = None, data_duration = Some 250\<rparr>)"
        "startup VariantB None" "- 7"]
  by (simp add: parseInt_abc parseInt_minus7)

text \<open>
  C7 as stated fails: with 250 stored, the text \<^verbatim>\<open>abc\<close> leaves 100 and the text
  \<^verbatim>\<open>-7\<close> leaves 0; neither leaves 250.
\<close>

theorem durationOnChange_keeps_prior_counterexample:
  "duration (settings (startup VariantA (Some
      \<lparr>data_backgroundColor = None, data_foregroundColor = None, data_duration = Some 250\<rparr>))) = 250
   \<and> duration (settings (durationOnChange VariantA ''abc'' (startup VariantA (Some
      \<lparr>data_backgroundColor = None, data_foregroundColor = None, data_duration = Some 250\<rparr>)))) = 100
   \<and> duration (settings (durationOnChange VariantA ''-7'' (startup VariantA (Some
      \<lparr>data_backgroundColor = None, data_foregroundColor = None, data_duration = Some 250\<rparr>)))) = 0"
  by (simp add: onChange_fields parseInt_abc parseInt_minus7 default_duration startup_fields
        Object_assign_def assign_field_def)

text \<open>
  C5, as the code has it. After an edit of the duration field the duration is
  never negative. Edits of the colour fields, copy events and the event loop leave
  the settings' duration as it is. Loading with nothing persisted gives a
  non-negative duration, and so does loading an object whose duration is absent or
  non-negative; the load itself checks nothing.
\<close>

theorem duration_nonnegative:
  "0 \<le> duration (settings (durationOnChange var v s))
   \<and> duration (settings (backgroundOnChange var v s)) = duration (settings s)
   \<and> duration (settings (foregroundOnChange v s)) = duration (settings s)
   \<and> settings (onCopy var view s) = settings s
   \<and> settings (run_until t s) = settings s
   \<and> 0 \<le> duration (settings (loadSettings var (s\<lparr>stored := None\<rparr>)))
   \<and> ((\<forall>n. data_duration d = Some n \<longrightarrow> 0 \<le> n) \<longrightarrow>
        0 \<le> duration (settings (loadSettings var (s\<lparr>stored := Some d\<rparr>))))"
  by (auto simp: onChange_fields default_duration onCopy_fields run_until_settings
        loadSettings_def Object_assign_def assign_field_def split: option.splits)

theorem duration_nonnegative_witness:
  "data_duration \<lparr>data_backgroundColor = None, data_foregroundColor = None,
                   data_duration = Some 250\<rparr> = Some 250
   \<and> (0 :: int) \<le> 250
   \<and> 0 \<le> duration (settings (loadSettings VariantA ((startup VariantA None)
       \<lparr>stored := Some \<lparr>data_backgroundColor = None, data_foregroundColor = None,
                         data_duration = Some 250\<rparr>\<rparr>)))"
  using duration_nonnegative [of VariantA "[]" "startup VariantA None" None 0
      "\<lparr>data_backgroundColor = None, data_foregroundColor = None, data_duration = Some 250\<rparr>"]
  by simp

text \<open>
  C5 as stated fails at load: a persisted duration of \<open>-5\<close> becomes the
  settings' duration.
\<close>

theorem loadSettings_negative_duration_counterexample:
  "\<not> 0 \<le> duration (settings (loadSettings VariantA ((startup VariantA None)
       \<lparr>stored := Some \<lparr>data_backgroundColor = None, data_foregroundColor = None,
                         data_duration = Some (- 5)\<rparr>\<rparr>)))"
  by (simp add: loadSettings_def Object_assign_def assign_field_def)

text \<open>
  C8, as the code has it. The foreground field stores every submitted string as
  it is, the empty one included, and so does the background field of variant B. The
  background field of variant A stores every non-empty string as it is and stores
  the default background colour for the empty string.
\<close>

theorem color_fields_stored:
  "foregroundColor (settings (foregroundOnChange v s)) = v
   \<and> backgroundColor (settings (backgroundOnChange VariantB v s)) = v
   \<and> (v \<noteq> [] \<longrightarrow> backgroundColor (settings (backgroundOnChange VariantA v s)) = v)
   \<and> backgroundColor (settings (backgroundOnChange VariantA [] s)) = ''rgba(0, 255, 0, 0.5)''"
  by (simp add: onChange_fields DEFAULT_SETTINGS_def)

theorem color_fields_stored_witness:
  "''red'' \<noteq> []
   \<and> backgroundColor (settings (backgroundOnChange VariantA ''red'' (startup VariantA None))) = ''red''
   \<and> foregroundColor (settings (foregroundOnChange [] (startup VariantA None))) = []"
  using color_fields_stored [of "''red''" "startup VariantA None"]
    color_fields_stored [of "[]" "startup VariantA None"]
  by simp

text \<open>
  C8 as stated fails in variant A: after the empty string is submitted to the
  background field, the stored background colour is not empty.
\<close>

theorem backgroundOnChange_empty_counterexample:
  "backgroundColor (settings (backgroundOnChange VariantA [] (startup VariantA None))) \<noteq> []"
  by (simp add: onChange_fields DEFAULT_SETTINGS_def)

section \<open>Style parameters of a copy event\<close>





end
